theory Spec2Isabelle
  imports Complex_Main "HOL-Library.Sublist"
begin

section \<open>Python objects\<close>

text \<open>
  The development embeds \<^verbatim>\<open>timeout_decorator\<close> of \<^verbatim>\<open>czsc/utils/__init__.py\<close>
  (lines 229 to 262). Durations are exact numbers of seconds. An exception object carries
  its class name, its arguments, its identity, whether it is an instance of
  \<^verbatim>\<open>Exception\<close> (what \<^verbatim>\<open>except Exception\<close> tests) and its truth value (what
  \<^verbatim>\<open>if exception[0]:\<close> tests; true unless the class defines \<^verbatim>\<open>__bool__\<close> or
  \<^verbatim>\<open>__len__\<close>).
\<close>

type_synonym seconds = rat

record py_exception =
  exc_class :: string
  exc_args :: string
  exc_id :: nat
  isinstance_Exception :: bool
  truth_value :: bool

datatype py_object =
  PyNone
  | PyBool bool
  | PyInt int
  | PyStr string
  | PyExc py_exception

text \<open>The truth value Python's \<^verbatim>\<open>if x:\<close> computes.\<close>

fun py_bool :: "py_object \<Rightarrow> bool" where
  "py_bool PyNone = False"
| "py_bool (PyBool b) = b"
| "py_bool (PyInt n) = (n \<noteq> 0)"
| "py_bool (PyStr s) = (s \<noteq> [])"
| "py_bool (PyExc e) = truth_value e"

text \<open>What a call hands to its caller: a returned object or a raised exception.\<close>

datatype outcome = Returned py_object | Raised py_exception

definition type_error :: py_exception where
  "type_error =
     \<lparr>exc_class = ''TypeError'', exc_args = ''exceptions must derive from BaseException'',
      exc_id = 0, isinstance_Exception = True, truth_value = True\<rparr>"

text \<open>
  What \<^verbatim>\<open>func.__name__\<close> raises for a callable that has no such attribute, and what
  \<^verbatim>\<open>Thread.join\<close> raises for a timeout above the largest one the platform accepts.
\<close>

definition attribute_error :: py_exception where
  "attribute_error =
     \<lparr>exc_class = ''AttributeError'', exc_args = ''object has no attribute __name__'',
      exc_id = 0, isinstance_Exception = True, truth_value = True\<rparr>"

definition overflow_error :: py_exception where
  "overflow_error =
     \<lparr>exc_class = ''OverflowError'', exc_args = ''timeout value is too large'',
      exc_id = 0, isinstance_Exception = True, truth_value = True\<rparr>"

text \<open>The statement \<^verbatim>\<open>raise x\<close>: Python raises x when it is an exception object.\<close>

fun py_raise :: "py_object \<Rightarrow> outcome" where
  "py_raise (PyExc e) = Raised e"
| "py_raise x = Raised type_error"

section \<open>Work items\<close>

text \<open>
  What one call \<^verbatim>\<open>func(*args, **kwargs)\<close> does: it returns an object after some time,
  raises an exception after some time, or never terminates.
\<close>

datatype behaviour =
  Returns seconds py_object
  | Throws seconds py_exception
  | Hangs

type_synonym args = "py_object list"

type_synonym kwargs = "(string \<times> py_object) list"

text \<open>
  A function object: its module, name, qualified name and docstring (attributes that
  \<^verbatim>\<open>functools.wraps\<close> copies), and what a call does.
\<close>

record 'c py_function =
  fn_module :: string
  fn_name :: string
  fn_qualname :: string
  fn_doc :: "string option"
  fn_call :: 'c

type_synonym work = "(args \<Rightarrow> kwargs \<Rightarrow> behaviour) py_function"

text \<open>
  What the decorator can be applied to: a function, or another callable object (such as
  a \<^verbatim>\<open>functools.partial\<close>), which has a module and a docstring through its class but
  neither \<^verbatim>\<open>__name__\<close> nor \<^verbatim>\<open>__qualname__\<close>.
\<close>

datatype callable =
  Function work
  | Callable_object string "string option" "args \<Rightarrow> kwargs \<Rightarrow> behaviour"

fun py_call :: "callable \<Rightarrow> args \<Rightarrow> kwargs \<Rightarrow> behaviour" where
  "py_call (Function f) = fn_call f"
| "py_call (Callable_object m d c) = c"

text \<open>The attribute \<^verbatim>\<open>func.__name__\<close>; None when reading it raises AttributeError.\<close>

fun py_name :: "callable \<Rightarrow> string option" where
  "py_name (Function f) = Some (fn_name f)"
| "py_name (Callable_object m d c) = None"

section \<open>The runtime: heap, threads, clock, log and standard error\<close>

type_synonym addr = nat

text \<open>
  A thread that runs \<^verbatim>\<open>target\<close>: the time at which it terminates (if ever), the one
  assignment to a list slot it performs when it does, the exception that escapes
  \<^verbatim>\<open>target\<close> (if any), and whether it has terminated.
\<close>

record thread =
  finishes_at :: "seconds option"
  write_back :: "(addr \<times> py_object) option"
  uncaught :: "py_exception option"
  finished :: bool

datatype log_level = TRACE | DEBUG | INFO | SUCCESS | WARNING | ERROR | CRITICAL

record log_event =
  level :: log_level
  message :: string

text \<open>
  The world: the clock, the heap of one-slot lists, the threads, the events logged and
  the exceptions whose tracebacks the interpreter printed on standard error.
\<close>

record world =
  now :: seconds
  heap :: "addr \<Rightarrow> py_object"
  next_free :: addr
  threads :: "thread list"
  logs :: "log_event list"
  stderr :: "py_exception list"

text \<open>
  What the source leaves to the interpreter and the platform: whether a thread that
  terminates at the very instant a wait gives up is still seen alive; for how long the
  new thread has been running when \<^verbatim>\<open>start\<close> has returned and \<^verbatim>\<open>join\<close> is called
  (\<^verbatim>\<open>start\<close> waits until the thread has booted; a negative number counts as zero); the
  largest timeout \<^verbatim>\<open>join\<close> accepts (which \<^verbatim>\<open>threading.TIMEOUT_MAX\<close> documents);
  and how the f-string renders the timeout, the positional and the keyword arguments.
\<close>

record runtime =
  tie_alive :: bool
  head_start :: seconds
  timeout_max :: seconds
  str_timeout :: "seconds option \<Rightarrow> string"
  str_args :: "args \<Rightarrow> string"
  str_kwargs :: "kwargs \<Rightarrow> string"

definition world0 :: world where
  "world0 =
     \<lparr>now = 0, heap = (\<lambda>a. PyNone), next_free = 0, threads = [], logs = [], stderr = []\<rparr>"

text \<open>The list display \<^verbatim>\<open>[v]\<close>: a fresh one-slot list.\<close>

definition new_cell :: "py_object \<Rightarrow> world \<Rightarrow> addr \<times> world" where
  "new_cell v w =
     (next_free w, w\<lparr>heap := (heap w)(next_free w := v), next_free := Suc (next_free w)\<rparr>)"

text \<open>
  A running thread is due at time T when it terminates before T, or at T when the
  instant itself counts.
\<close>

definition due :: "bool \<Rightarrow> seconds \<Rightarrow> thread \<Rightarrow> bool" where
  "due incl T th =
     (\<not> finished th \<and>
      (case finishes_at th of None \<Rightarrow> False | Some t \<Rightarrow> t < T \<or> (incl \<and> t = T)))"

definition store :: "(addr \<times> py_object) option \<Rightarrow> (addr \<Rightarrow> py_object) \<Rightarrow> addr \<Rightarrow> py_object" where
  "store wb h = (case wb of None \<Rightarrow> h | Some (a, v) \<Rightarrow> h(a := v))"

definition settle :: "bool \<Rightarrow> seconds \<Rightarrow> thread \<Rightarrow> (addr \<Rightarrow> py_object) \<Rightarrow> addr \<Rightarrow> py_object" where
  "settle incl T th h = (if due incl T th then store (write_back th) h else h)"

definition retire :: "bool \<Rightarrow> seconds \<Rightarrow> thread \<Rightarrow> thread" where
  "retire incl T th = (if due incl T th then th\<lparr>finished := True\<rparr> else th)"

text \<open>
  \<^verbatim>\<open>threading.excepthook\<close>, which the interpreter calls when an exception escapes the
  target of a thread: it prints the traceback on standard error, except for an exception
  whose class is \<^verbatim>\<open>SystemExit\<close>, which it ignores.
\<close>

definition excepthook :: "thread \<Rightarrow> py_exception list" where
  "excepthook th =
     (case uncaught th of
        None \<Rightarrow> []
      | Some e \<Rightarrow> if exc_class e = ''SystemExit'' then [] else [e])"

definition report :: "bool \<Rightarrow> seconds \<Rightarrow> thread \<Rightarrow> py_exception list" where
  "report incl T th = (if due incl T th then excepthook th else [])"

text \<open>
  Time passes until T: every thread that is due performs its assignment, has its
  uncaught exception reported and ends.
\<close>

definition elapse :: "bool \<Rightarrow> seconds \<Rightarrow> world \<Rightarrow> world" where
  "elapse incl T w =
     w\<lparr>now := max (now w) T,
       heap := fold (settle incl T) (threads w) (heap w),
       threads := map (retire incl T) (threads w),
       stderr := stderr w @ concat (map (report incl T) (threads w))\<rparr>"

text \<open>
  \<^verbatim>\<open>threading.Thread(target=run).start()\<close>: the thread starts running at the current
  time, and \<^verbatim>\<open>start\<close> returns once the thread has booted; by the time the caller goes
  on, the thread has been running for the runtime's head start.
\<close>

definition thread_start :: "runtime \<Rightarrow> (seconds \<Rightarrow> thread) \<Rightarrow> world \<Rightarrow> nat \<times> world" where
  "thread_start rt run w =
     (length (threads w),
      elapse (\<not> tie_alive rt) (now w + max (head_start rt) 0)
        (w\<lparr>threads := threads w @ [run (now w)]\<rparr>))"

text \<open>
  \<^verbatim>\<open>Thread.join(timeout)\<close>. The result None stands for a call that never returns,
  \<open>Inl\<close> for an exception raised, \<open>Inr\<close> for the world in which the call returns.
  Without a timeout it waits until the thread terminates, and never returns when the thread
  never does. With a timeout d it waits at most \<^verbatim>\<open>max(d, 0)\<close> seconds, as CPython's
  \<^verbatim>\<open>join\<close> does, and raises OverflowError, before any waiting, when that number is
  above the largest timeout the platform accepts. A handle that \<^const>\<open>thread_start\<close> did
  not return names no started thread; the wrapper never passes one.
\<close>

definition thread_join ::
  "runtime \<Rightarrow> nat \<Rightarrow> seconds option \<Rightarrow> world \<Rightarrow> (py_exception + world) option" where
  "thread_join rt tid timeout w =
     (case timeout of
        None \<Rightarrow>
          if \<not> tid < length (threads w) \<or> finished (threads w ! tid) then Some (Inr w)
          else
            (case finishes_at (threads w ! tid) of
               None \<Rightarrow> None
             | Some t \<Rightarrow> Some (Inr (elapse True t w)))
      | Some d \<Rightarrow>
          if timeout_max rt < max d 0 then Some (Inl overflow_error)
          else if \<not> tid < length (threads w) \<or> finished (threads w ! tid) then Some (Inr w)
          else
            (let limit = now w + max d 0 in
             case finishes_at (threads w ! tid) of
               None \<Rightarrow> Some (Inr (elapse (\<not> tie_alive rt) limit w))
             | Some t \<Rightarrow>
                 if t < limit then Some (Inr (elapse True t w))
                 else Some (Inr (elapse (\<not> tie_alive rt) limit w))))"

definition is_alive :: "nat \<Rightarrow> world \<Rightarrow> bool" where
  "is_alive tid w = (tid < length (threads w) \<and> \<not> finished (threads w ! tid))"

definition logger_warning :: "string \<Rightarrow> world \<Rightarrow> world" where
  "logger_warning msg w = w\<lparr>logs := logs w @ [\<lparr>level = WARNING, message = msg\<rparr>]\<rparr>"

section \<open>The decorator\<close>

text \<open>
  The inner function \<^verbatim>\<open>target\<close> (lines 241 to 245), run by a thread started at the given
  time: the value of the call goes to \<^verbatim>\<open>result[0]\<close>, an exception that is an instance of
  \<^verbatim>\<open>Exception\<close> goes to \<^verbatim>\<open>exception[0]\<close>, and any other exception escapes and leaves
  the thread without an assignment.
\<close>

definition target :: "callable \<Rightarrow> args \<Rightarrow> kwargs \<Rightarrow> addr \<Rightarrow> addr \<Rightarrow> seconds \<Rightarrow> thread" where
  "target func args kwargs result exception started =
     (case py_call func args kwargs of
        Returns dt v \<Rightarrow>
          \<lparr>finishes_at = Some (started + dt), write_back = Some (result, v),
           uncaught = None, finished = False\<rparr>
      | Throws dt e \<Rightarrow>
          if isinstance_Exception e then
            \<lparr>finishes_at = Some (started + dt), write_back = Some (exception, PyExc e),
             uncaught = None, finished = False\<rparr>
          else
            \<lparr>finishes_at = Some (started + dt), write_back = None,
             uncaught = Some e, finished = False\<rparr>
      | Hangs \<Rightarrow>
          \<lparr>finishes_at = None, write_back = None, uncaught = None, finished = False\<rparr>)"

text \<open>
  The f-string of line 252. Reading \<^verbatim>\<open>func.__name__\<close> comes first and raises
  AttributeError for a callable without that attribute.
\<close>

definition timeout_message ::
  "runtime \<Rightarrow> seconds option \<Rightarrow> callable \<Rightarrow> args \<Rightarrow> kwargs \<Rightarrow> py_exception + string" where
  "timeout_message rt timeout func args kwargs =
     (case py_name func of
        None \<Rightarrow> Inl attribute_error
      | Some name \<Rightarrow>
          Inr (name @ '' timed out after '' @ str_timeout rt timeout @ '' seconds; args: '' @
               str_args rt args @ ''; kwargs: '' @ str_kwargs rt kwargs))"

text \<open>
  The inner function \<^verbatim>\<open>wrapper\<close> (lines 237 to 258). The result is None when the call
  never returns. An exception raised by \<^verbatim>\<open>join\<close> (line 249) or by the f-string
  (line 252) leaves the wrapper as it is.
\<close>

definition wrapper ::
  "runtime \<Rightarrow> seconds option \<Rightarrow> callable \<Rightarrow> args \<Rightarrow> kwargs \<Rightarrow> world \<Rightarrow>
   (outcome \<times> world) option" where
  "wrapper rt timeout func args kwargs w0 =
     (let (result, w1) = new_cell PyNone w0;
          (exception, w2) = new_cell PyNone w1;
          (tid, w3) = thread_start rt (target func args kwargs result exception) w2
      in case thread_join rt tid timeout w3 of
           None \<Rightarrow> None
         | Some (Inl e) \<Rightarrow> Some (Raised e, w3)
         | Some (Inr w4) \<Rightarrow>
             if is_alive tid w4 then
               (case timeout_message rt timeout func args kwargs of
                  Inl e \<Rightarrow> Some (Raised e, w4)
                | Inr msg \<Rightarrow> Some (Returned PyNone, logger_warning msg w4))
             else if py_bool (heap w4 exception) then Some (py_raise (heap w4 exception), w4)
             else Some (Returned (heap w4 result), w4))"

text \<open>
  \<^verbatim>\<open>functools.wraps(wrapped)\<close> applied to a function: the module, name, qualified name
  and docstring of \<^verbatim>\<open>wrapped\<close> replace the function's own, each when \<^verbatim>\<open>wrapped\<close> has
  the attribute.
\<close>

fun functools_wraps :: "callable \<Rightarrow> 'b py_function \<Rightarrow> 'b py_function" where
  "functools_wraps (Function g) f =
     f\<lparr>fn_module := fn_module g, fn_name := fn_name g,
       fn_qualname := fn_qualname g, fn_doc := fn_doc g\<rparr>"
| "functools_wraps (Callable_object m d c) f = f\<lparr>fn_module := m, fn_doc := d\<rparr>"

type_synonym guarded = "(args \<Rightarrow> kwargs \<Rightarrow> world \<Rightarrow> (outcome \<times> world) option) py_function"

definition decorator :: "runtime \<Rightarrow> seconds option \<Rightarrow> callable \<Rightarrow> guarded" where
  "decorator rt timeout func =
     functools_wraps func
       \<lparr>fn_module = ''czsc.utils'', fn_name = ''wrapper'',
        fn_qualname = ''timeout_decorator.<locals>.decorator.<locals>.wrapper'',
        fn_doc = None, fn_call = wrapper rt timeout func\<rparr>"

definition timeout_decorator :: "runtime \<Rightarrow> seconds option \<Rightarrow> callable \<Rightarrow> guarded" where
  "timeout_decorator rt timeout = decorator rt timeout"

text \<open>
  The worlds the program can be in: a thread assigns only to a list that was allocated
  before the thread started.
\<close>

definition wf_world :: "world \<Rightarrow> bool" where
  "wf_world w =
     list_all (\<lambda>th. case write_back th of None \<Rightarrow> True | Some (a, v) \<Rightarrow> a < next_free w)
       (threads w)"

section \<open>Notions used to state the properties\<close>

text \<open>
  The world after lines 238 to 247: the two one-slot lists \<^verbatim>\<open>result\<close> and
  \<^verbatim>\<open>exception\<close> are allocated and the thread object is made; and the world after line
  248, when \<^verbatim>\<open>start\<close> has returned. Lemma \<open>wrapper_started\<close> shows that
  \<^const>\<open>wrapper\<close> goes through these worlds.
\<close>

definition spawn :: "callable \<Rightarrow> args \<Rightarrow> kwargs \<Rightarrow> world \<Rightarrow> world" where
  "spawn func args kwargs w =
     w\<lparr>heap := (heap w)(next_free w := PyNone, Suc (next_free w) := PyNone),
       next_free := Suc (Suc (next_free w)),
       threads := threads w @
         [target func args kwargs (next_free w) (Suc (next_free w)) (now w)]\<rparr>"

definition lead :: "runtime \<Rightarrow> seconds" where
  "lead rt = max (head_start rt) 0"

definition started :: "runtime \<Rightarrow> callable \<Rightarrow> args \<Rightarrow> kwargs \<Rightarrow> world \<Rightarrow> world" where
  "started rt func args kwargs w =
     elapse (\<not> tie_alive rt) (now w + lead rt) (spawn func args kwargs w)"

text \<open>
  The world in which \<^verbatim>\<open>join\<close> returns when the work, which needs t seconds,
  completes: the thread had already ended when \<^verbatim>\<open>start\<close> returned, or \<^verbatim>\<open>join\<close>
  waited for its end. And the world in which \<^verbatim>\<open>join\<close> gives up after
  \<^verbatim>\<open>max(d, 0)\<close> seconds.
\<close>

definition early :: "runtime \<Rightarrow> seconds \<Rightarrow> bool" where
  "early rt t = (t < lead rt \<or> (t = lead rt \<and> \<not> tie_alive rt))"

definition joined :: "runtime \<Rightarrow> callable \<Rightarrow> args \<Rightarrow> kwargs \<Rightarrow> world \<Rightarrow> seconds \<Rightarrow> world" where
  "joined rt func args kwargs w t =
     (if early rt t then started rt func args kwargs w
      else elapse True (now w + t) (started rt func args kwargs w))"

definition expired :: "runtime \<Rightarrow> callable \<Rightarrow> args \<Rightarrow> kwargs \<Rightarrow> world \<Rightarrow> seconds \<Rightarrow> world" where
  "expired rt func args kwargs w d =
     elapse (\<not> tie_alive rt) (now w + lead rt + max d 0) (started rt func args kwargs w)"

text \<open>Time passes in several steps.\<close>

fun idle :: "(bool \<times> seconds) list \<Rightarrow> world \<Rightarrow> world" where
  "idle [] w = w"
| "idle ((incl, T) # steps) w = idle steps (elapse incl T w)"



text \<open>How long a call runs, when it terminates.\<close>

fun duration :: "behaviour \<Rightarrow> seconds option" where
  "duration (Returns t v) = Some t"
| "duration (Throws t e) = Some t"
| "duration Hangs = None"

text \<open>
  \<^verbatim>\<open>join\<close> accepts the timeout: there is none, or \<^verbatim>\<open>max(d, 0)\<close> is at most the
  largest timeout of the platform.
\<close>

definition accepted :: "runtime \<Rightarrow> seconds option \<Rightarrow> bool" where
  "accepted rt timeout =
     (case timeout of None \<Rightarrow> True | Some d \<Rightarrow> max d 0 \<le> timeout_max rt)"

text \<open>
  A work item that needs t seconds is seen to have ended when \<^verbatim>\<open>join\<close> returns: always
  without a timeout; with a timeout d when t is below the head start plus
  \<^verbatim>\<open>max(d, 0)\<close>, or equal to it and the runtime resolves the tie in favour of the
  thread.
\<close>

definition in_time :: "runtime \<Rightarrow> seconds option \<Rightarrow> seconds \<Rightarrow> bool" where
  "in_time rt timeout t =
     (case timeout of
        None \<Rightarrow> True
      | Some d \<Rightarrow> t < lead rt + max d 0 \<or> (t = lead rt + max d 0 \<and> \<not> tie_alive rt))"

text \<open>The work completes under the timeout: \<^verbatim>\<open>join\<close> accepts it and sees the work end.\<close>

definition completes :: "runtime \<Rightarrow> seconds option \<Rightarrow> seconds \<Rightarrow> bool" where
  "completes rt timeout t = (accepted rt timeout \<and> in_time rt timeout t)"

text \<open>
  The deadline elapses first: there is a timeout that \<^verbatim>\<open>join\<close> accepts, and the work
  never terminates or is not seen to have ended when \<^verbatim>\<open>join\<close> returns.
\<close>

definition overruns :: "runtime \<Rightarrow> seconds option \<Rightarrow> behaviour \<Rightarrow> bool" where
  "overruns rt timeout b =
     (case timeout of
        None \<Rightarrow> False
      | Some d \<Rightarrow>
          accepted rt timeout \<and>
          (case duration b of None \<Rightarrow> True | Some t \<Rightarrow> \<not> in_time rt timeout t))"

text \<open>
  What the caller of \<^const>\<open>wrapper\<close> observes, as a function of the runtime, the timeout
  and the work alone. Lemma \<open>wrapper_verdict\<close> proves that \<^const>\<open>wrapper\<close> computes it
  in every well-formed world.
\<close>

definition verdict ::
  "runtime \<Rightarrow> seconds option \<Rightarrow> callable \<Rightarrow> args \<Rightarrow> kwargs \<Rightarrow> outcome option" where
  "verdict rt timeout func args kwargs =
     (if \<not> accepted rt timeout then Some (Raised overflow_error)
      else if overruns rt timeout (py_call func args kwargs) then
        (case py_name func of
           None \<Rightarrow> Some (Raised attribute_error)
         | Some name \<Rightarrow> Some (Returned PyNone))
      else
        (case py_call func args kwargs of
           Returns t v \<Rightarrow> Some (Returned v)
         | Throws t e \<Rightarrow>
             Some (if isinstance_Exception e \<and> truth_value e then Raised e else Returned PyNone)
         | Hangs \<Rightarrow> None))"

section \<open>Example inputs\<close>

text \<open>
  A runtime in which the new thread has run for a millisecond when \<^verbatim>\<open>join\<close> is called
  and \<^verbatim>\<open>threading.TIMEOUT_MAX\<close> is 9223372036 seconds, as where the C type
  \<^verbatim>\<open>long long\<close> has 64 bits.
\<close>

definition demo_runtime :: runtime where
  "demo_runtime =
     \<lparr>tie_alive = True, head_start = 1 / 1000, timeout_max = 9223372036,
      str_timeout = (\<lambda>t. ''0.2''), str_args = (\<lambda>a. ''()''), str_kwargs = (\<lambda>k. ''{}'')\<rparr>"

definition sleeper :: "string \<Rightarrow> behaviour \<Rightarrow> work" where
  "sleeper name b =
     \<lparr>fn_module = ''__main__'', fn_name = name, fn_qualname = name, fn_doc = Some ''sleeps'',
      fn_call = (\<lambda>args kwargs. b)\<rparr>"


definition value_error :: py_exception where
  "value_error =
     \<lparr>exc_class = ''ValueError'', exc_args = ''bad input'', exc_id = 1,
      isinstance_Exception = True, truth_value = True\<rparr>"

definition system_exit :: py_exception where
  "system_exit =
     \<lparr>exc_class = ''SystemExit'', exc_args = '''', exc_id = 2,
      isinstance_Exception = False, truth_value = True\<rparr>"


section \<open>The wrapper, path by path\<close>

subsection \<open>The call up to the join\<close>

lemma wrapper_started:
  "wrapper rt timeout func args kwargs w =
     (case thread_join rt (length (threads w)) timeout (started rt func args kwargs w) of
        None \<Rightarrow> None
      | Some (Inl e) \<Rightarrow> Some (Raised e, started rt func args kwargs w)
      | Some (Inr w4) \<Rightarrow>
          if is_alive (length (threads w)) w4 then
            (case timeout_message rt timeout func args kwargs of
               Inl e \<Rightarrow> Some (Raised e, w4)
             | Inr msg \<Rightarrow> Some (Returned PyNone, logger_warning msg w4))
          else if py_bool (heap w4 (Suc (next_free w))) then
            Some (py_raise (heap w4 (Suc (next_free w))), w4)
          else Some (Returned (heap w4 (next_free w)), w4))"
  by (simp add: wrapper_def new_cell_def thread_start_def started_def spawn_def lead_def
      split: option.splits sum.splits)

lemma target_fresh [simp]:
  "finished (target func args kwargs r x s) = False"
  by (simp add: target_def split: behaviour.splits)

lemma target_finishes_at:
  "finishes_at (target func args kwargs r x s) =
     map_option (\<lambda>t. s + t) (duration (py_call func args kwargs))"
  by (simp add: target_def split: behaviour.splits)

lemma lead_nonneg [simp]: "0 \<le> lead rt"
  by (simp add: lead_def)

lemma elapse_simps [simp]:
  "logs (elapse incl T w) = logs w"
  "next_free (elapse incl T w) = next_free w"
  "length (threads (elapse incl T w)) = length (threads w)"
  "now (elapse incl T w) = max (now w) T"
  by (simp_all add: elapse_def)

lemma elapse_thread:
  "i < length (threads w) \<Longrightarrow> threads (elapse incl T w) ! i = retire incl T (threads w ! i)"
  by (simp add: elapse_def)

lemma logger_warning_simps [simp]:
  "now (logger_warning msg w) = now w"
  "heap (logger_warning msg w) = heap w"
  "next_free (logger_warning msg w) = next_free w"
  "threads (logger_warning msg w) = threads w"
  "stderr (logger_warning msg w) = stderr w"
  "logs (logger_warning msg w) = logs w @ [\<lparr>level = WARNING, message = msg\<rparr>]"
  by (simp_all add: logger_warning_def)

lemma is_alive_logger_warning [simp]:
  "is_alive tid (logger_warning msg w) = is_alive tid w"
  by (simp add: is_alive_def)

lemma spawn_simps [simp]:
  "now (spawn func args kwargs w) = now w"
  "next_free (spawn func args kwargs w) = Suc (Suc (next_free w))"
  "logs (spawn func args kwargs w) = logs w"
  "stderr (spawn func args kwargs w) = stderr w"
  "length (threads (spawn func args kwargs w)) = Suc (length (threads w))"
  "threads (spawn func args kwargs w) =
     threads w @ [target func args kwargs (next_free w) (Suc (next_free w)) (now w)]"
  "heap (spawn func args kwargs w) =
     (heap w)(next_free w := PyNone, Suc (next_free w) := PyNone)"
  by (simp_all add: spawn_def)

lemma started_simps [simp]:
  "now (started rt func args kwargs w) = now w + lead rt"
  "next_free (started rt func args kwargs w) = Suc (Suc (next_free w))"
  "logs (started rt func args kwargs w) = logs w"
  "length (threads (started rt func args kwargs w)) = Suc (length (threads w))"
  by (simp_all add: started_def)

subsection \<open>The new thread while time passes\<close>

lemma retire_simps [simp]:
  "write_back (retire incl T th) = write_back th"
  "finishes_at (retire incl T th) = finishes_at th"
  "uncaught (retire incl T th) = uncaught th"
  "finished (retire incl T th) = (finished th \<or> due incl T th)"
  by (simp_all add: retire_def)

lemma due_target:
  "due incl T (target func args kwargs r x s) =
     (case duration (py_call func args kwargs) of
        None \<Rightarrow> False
      | Some t \<Rightarrow> s + t < T \<or> (incl \<and> s + t = T))"
  by (simp add: due_def target_finishes_at split: option.splits)

lemma due_retire:
  "due incl T (retire incl' T' th) = (due incl T th \<and> \<not> due incl' T' th)"
  by (auto simp add: due_def)

lemma started_thread:
  "threads (started rt func args kwargs w) ! length (threads w) =
     retire (\<not> tie_alive rt) (now w + lead rt)
       (target func args kwargs (next_free w) (Suc (next_free w)) (now w))"
  by (simp add: started_def elapse_def nth_append)

lemma started_due:
  "due (\<not> tie_alive rt) (now w + lead rt)
     (target func args kwargs r x (now w)) =
   (case duration (py_call func args kwargs) of None \<Rightarrow> False | Some t \<Rightarrow> early rt t)"
  by (auto simp add: due_target early_def split: option.splits)

subsection \<open>The heap while time passes\<close>

lemma fold_settle_untouched:
  "list_all (\<lambda>th. case write_back th of None \<Rightarrow> True | Some (b, v) \<Rightarrow> b \<noteq> a) ths \<Longrightarrow>
   fold (settle incl T) ths h a = h a"
proof (induction ths arbitrary: h)
  case Nil
  then show ?case by simp
next
  case (Cons th ths)
  then show ?case
    by (auto simp: settle_def store_def split: option.splits)
qed

lemma store_pointwise:
  "h a = h' a \<Longrightarrow> store wb h a = store wb h' a"
  by (auto simp: store_def split: option.splits)

lemma settle_pointwise:
  "h a = h' a \<Longrightarrow> settle incl T th h a = settle incl T th h' a"
  by (auto simp: settle_def store_def split: option.splits)

lemma elapse_last_heap:
  assumes "threads W = olds @ [th]"
    and "list_all (\<lambda>th. case write_back th of None \<Rightarrow> True | Some (b, v) \<Rightarrow> b \<noteq> a) olds"
  shows "heap (elapse incl T W) a = settle incl T th (heap W) a"
proof -
  have unfolded: "heap (elapse incl T W) =
      settle incl T th (fold (settle incl T) olds (heap W))"
    by (simp add: elapse_def assms(1))
  have "fold (settle incl T) olds (heap W) a = heap W a"
    using assms(2) by (rule fold_settle_untouched)
  then have "settle incl T th (fold (settle incl T) olds (heap W)) a =
             settle incl T th (heap W) a"
    by (rule settle_pointwise)
  then show ?thesis
    by (simp only: unfolded)
qed

lemma elapse_last_threads:
  assumes "threads W = olds @ [th]"
  shows "threads (elapse incl T W) = map (retire incl T) olds @ [retire incl T th]"
  by (simp add: elapse_def assms)

lemma untouched_retire:
  assumes "list_all (\<lambda>th. case write_back th of None \<Rightarrow> True | Some (b, v) \<Rightarrow> b \<noteq> a) olds"
  shows "list_all (\<lambda>th. case write_back th of None \<Rightarrow> True | Some (b, v) \<Rightarrow> b \<noteq> a)
           (map (retire incl T) olds)"
  using assms by (simp add: list_all_iff)

lemma wf_world_untouched:
  assumes "wf_world w" and "next_free w \<le> a"
  shows "list_all (\<lambda>th. case write_back th of None \<Rightarrow> True | Some (b, v) \<Rightarrow> b \<noteq> a) (threads w)"
  using assms unfolding wf_world_def list_all_iff
  by (auto split: option.splits)

lemma started_threads:
  "threads (started rt func args kwargs w) =
     map (retire (\<not> tie_alive rt) (now w + lead rt)) (threads w) @
     [retire (\<not> tie_alive rt) (now w + lead rt)
        (target func args kwargs (next_free w) (Suc (next_free w)) (now w))]"
  unfolding started_def by (rule elapse_last_threads) simp

lemma heap_started:
  assumes "wf_world w" and "next_free w \<le> a"
  shows "heap (started rt func args kwargs w) a =
         settle (\<not> tie_alive rt) (now w + lead rt)
           (target func args kwargs (next_free w) (Suc (next_free w)) (now w))
           ((heap w)(next_free w := PyNone, Suc (next_free w) := PyNone)) a"
proof -
  have "heap (started rt func args kwargs w) a =
        settle (\<not> tie_alive rt) (now w + lead rt)
          (target func args kwargs (next_free w) (Suc (next_free w)) (now w))
          (heap (spawn func args kwargs w)) a"
    unfolding started_def
    by (rule elapse_last_heap [OF _ wf_world_untouched [OF assms]]) simp
  then show ?thesis by simp
qed

lemma heap_elapse_started:
  assumes "wf_world w" and "next_free w \<le> a"
  shows "heap (elapse incl T (started rt func args kwargs w)) a =
         settle incl T
           (retire (\<not> tie_alive rt) (now w + lead rt)
              (target func args kwargs (next_free w) (Suc (next_free w)) (now w)))
           (heap (started rt func args kwargs w)) a"
  by (rule elapse_last_heap
      [OF started_threads untouched_retire [OF wf_world_untouched [OF assms]]])

subsection \<open>Joining the new thread\<close>

lemma join_started:
  "thread_join rt (length (threads w)) timeout (started rt func args kwargs w) =
     (case timeout of
        None \<Rightarrow>
          (case duration (py_call func args kwargs) of
             None \<Rightarrow> None
           | Some t \<Rightarrow> Some (Inr (joined rt func args kwargs w t)))
      | Some d \<Rightarrow>
          if timeout_max rt < max d 0 then Some (Inl overflow_error)
          else
            (case duration (py_call func args kwargs) of
               None \<Rightarrow> Some (Inr (expired rt func args kwargs w d))
             | Some t \<Rightarrow>
                 if early rt t \<or> t < lead rt + max d 0
                 then Some (Inr (joined rt func args kwargs w t))
                 else Some (Inr (expired rt func args kwargs w d))))"
proof (cases "duration (py_call func args kwargs)")
  case None
  then show ?thesis
    by (simp add: thread_join_def started_thread started_due target_finishes_at
        expired_def Let_def add.assoc split: option.splits)
next
  case (Some t)
  then show ?thesis
    by (auto simp add: thread_join_def started_thread started_due target_finishes_at
        expired_def joined_def Let_def add.assoc split: option.splits)
qed

lemma joined_simps [simp]:
  "logs (joined rt func args kwargs w t) = logs w"
  "next_free (joined rt func args kwargs w t) = Suc (Suc (next_free w))"
  "length (threads (joined rt func args kwargs w t)) = Suc (length (threads w))"
  by (simp_all add: joined_def)

lemma now_joined:
  "now (joined rt func args kwargs w t) = max (now w + lead rt) (now w + t)"
  by (auto simp add: joined_def early_def)

lemma expired_simps [simp]:
  "logs (expired rt func args kwargs w d) = logs w"
  "next_free (expired rt func args kwargs w d) = Suc (Suc (next_free w))"
  "length (threads (expired rt func args kwargs w d)) = Suc (length (threads w))"
  "now (expired rt func args kwargs w d) = now w + lead rt + max d 0"
  by (simp_all add: expired_def)

lemma joined_thread:
  assumes "duration (py_call func args kwargs) = Some t"
  shows "finished (threads (joined rt func args kwargs w t) ! length (threads w))"
proof (cases "early rt t")
  case True
  then show ?thesis
    using assms by (simp add: joined_def started_thread started_due)
next
  case False
  then show ?thesis
    using assms
    by (auto simp add: joined_def started_thread started_due elapse_thread due_retire
        due_target)
qed

lemma dead_joined:
  assumes "duration (py_call func args kwargs) = Some t"
  shows "\<not> is_alive (length (threads w)) (joined rt func args kwargs w t)"
  using joined_thread [OF assms] by (simp add: is_alive_def)

lemma heap_joined:
  assumes "wf_world w" and "duration (py_call func args kwargs) = Some t"
    and "next_free w \<le> a"
  shows "heap (joined rt func args kwargs w t) a =
         store (write_back (target func args kwargs (next_free w) (Suc (next_free w)) (now w)))
           ((heap w)(next_free w := PyNone, Suc (next_free w) := PyNone)) a"
proof (cases "early rt t")
  case True
  then show ?thesis
    using assms(2)
    by (simp add: joined_def heap_started [OF assms(1,3)] settle_def started_due)
next
  case False
  let ?th = "target func args kwargs (next_free w) (Suc (next_free w)) (now w)"
  let ?h0 = "(heap w)(next_free w := PyNone, Suc (next_free w) := PyNone)"
  have first: "heap (started rt func args kwargs w) a = ?h0 a"
    using False assms(2)
    by (simp add: heap_started [OF assms(1,3)] settle_def started_due)
  have "due True (now w + t) (retire (\<not> tie_alive rt) (now w + lead rt) ?th)"
    using False assms(2) by (simp add: due_retire started_due) (simp add: due_target)
  then have "heap (elapse True (now w + t) (started rt func args kwargs w)) a =
             store (write_back ?th) (heap (started rt func args kwargs w)) a"
    by (simp add: heap_elapse_started [OF assms(1,3)] settle_def)
  also have "\<dots> = store (write_back ?th) ?h0 a"
    using first by (rule store_pointwise)
  finally show ?thesis
    using False by (simp add: joined_def)
qed

lemma accepted_Some:
  "accepted rt (Some d) = (\<not> timeout_max rt < max d 0)"
  by (auto simp add: accepted_def max_def)

lemma not_early_overrun:
  assumes "overruns rt (Some d) b" and "duration b = Some t"
  shows "\<not> early rt t" and "\<not> t < lead rt + max d 0"
    and "\<not> (\<not> tie_alive rt \<and> t = lead rt + max d 0)"
  using assms by (auto simp add: overruns_def in_time_def early_def)

lemma expired_thread:
  assumes "overruns rt (Some d) (py_call func args kwargs)"
  shows "threads (expired rt func args kwargs w d) ! length (threads w) =
         target func args kwargs (next_free w) (Suc (next_free w)) (now w)"
proof (cases "duration (py_call func args kwargs)")
  case None
  then show ?thesis
    by (simp add: expired_def elapse_thread started_thread retire_def due_target)
next
  case (Some t)
  note facts = not_early_overrun [OF assms Some]
  have first: "\<not> due (\<not> tie_alive rt) (now w + lead rt)
      (target func args kwargs (next_free w) (Suc (next_free w)) (now w))"
    using facts(1) Some by (simp add: started_due)
  have second: "\<not> due (\<not> tie_alive rt) (now w + lead rt + max d 0)
      (target func args kwargs (next_free w) (Suc (next_free w)) (now w))"
    using facts(2,3) Some by (auto simp add: due_target add.assoc)
  show ?thesis
    using first second
    by (simp add: expired_def elapse_thread started_thread retire_def)
qed

lemma alive_expired:
  assumes "overruns rt (Some d) (py_call func args kwargs)"
  shows "is_alive (length (threads w)) (expired rt func args kwargs w d)"
  by (simp add: is_alive_def expired_thread [OF assms])

lemma join_in_time:
  assumes "duration (py_call func args kwargs) = Some t" and "completes rt timeout t"
  shows "thread_join rt (length (threads w)) timeout (started rt func args kwargs w) =
         Some (Inr (joined rt func args kwargs w t))"
proof (cases timeout)
  case None
  then show ?thesis by (simp add: join_started assms(1))
next
  case (Some d)
  have ok: "\<not> timeout_max rt < max d 0"
    using assms(2) by (simp add: completes_def accepted_Some Some)
  have "t < lead rt + max d 0 \<or> (t = lead rt + max d 0 \<and> \<not> tie_alive rt)"
    using assms(2) by (simp add: completes_def in_time_def Some)
  then show ?thesis
  proof
    assume "t < lead rt + max d 0"
    then show ?thesis
      by (simp add: join_started assms(1) Some ok)
  next
    assume tie: "t = lead rt + max d 0 \<and> \<not> tie_alive rt"
    show ?thesis
    proof (cases "early rt t")
      case True
      then show ?thesis
        by (simp add: join_started assms(1) Some ok)
    next
      case False
      have "expired rt func args kwargs w d = joined rt func args kwargs w t"
        using tie False by (simp add: expired_def joined_def add.assoc)
      then show ?thesis
        using tie False by (simp add: join_started assms(1) Some ok)
    qed
  qed
qed

lemma join_overrun:
  assumes "overruns rt (Some d) (py_call func args kwargs)"
  shows "thread_join rt (length (threads w)) (Some d) (started rt func args kwargs w) =
         Some (Inr (expired rt func args kwargs w d))"
proof -
  have ok: "\<not> timeout_max rt < max d 0"
    using assms by (simp add: overruns_def accepted_Some)
  show ?thesis
  proof (cases "duration (py_call func args kwargs)")
    case None
    then show ?thesis by (simp add: join_started ok)
  next
    case (Some t)
    note facts = not_early_overrun [OF assms Some]
    show ?thesis
      using facts(1,2) by (simp add: join_started ok Some)
  qed
qed

lemma join_overflow:
  assumes "\<not> accepted rt timeout"
  shows "thread_join rt (length (threads w)) timeout (started rt func args kwargs w) =
         Some (Inl overflow_error)"
proof (cases timeout)
  case None
  then show ?thesis
    using assms by (simp add: accepted_def)
next
  case (Some d)
  then show ?thesis
    using assms by (simp add: accepted_Some join_started)
qed

lemma join_blocks:
  assumes "py_call func args kwargs = Hangs"
  shows "thread_join rt (length (threads w)) None (started rt func args kwargs w) = None"
  using assms by (simp add: join_started)

subsection \<open>The paths of the wrapper\<close>

lemma wrapper_in_time:
  assumes "wf_world w" and "duration (py_call func args kwargs) = Some t"
    and "completes rt timeout t"
  shows "wrapper rt timeout func args kwargs w =
         (let wb = write_back (target func args kwargs (next_free w) (Suc (next_free w)) (now w));
              h = store wb ((heap w)(next_free w := PyNone, Suc (next_free w) := PyNone));
              w4 = joined rt func args kwargs w t
          in if py_bool (h (Suc (next_free w))) then Some (py_raise (h (Suc (next_free w))), w4)
             else Some (Returned (h (next_free w)), w4))"
  unfolding wrapper_started join_in_time [OF assms(2,3)] Let_def
  by (simp add: dead_joined [OF assms(2)] heap_joined [OF assms(1,2)])

lemma wrapper_returns:
  assumes "wf_world w" and "py_call func args kwargs = Returns t v"
    and "completes rt timeout t"
  shows "wrapper rt timeout func args kwargs w =
         Some (Returned v, joined rt func args kwargs w t)"
proof -
  have d: "duration (py_call func args kwargs) = Some t"
    using assms(2) by simp
  show ?thesis
    unfolding wrapper_in_time [OF assms(1) d assms(3)]
    by (simp add: target_def assms(2) store_def)
qed

lemma wrapper_raises:
  assumes "wf_world w" and "py_call func args kwargs = Throws t e"
    and "completes rt timeout t" and "isinstance_Exception e" and "truth_value e"
  shows "wrapper rt timeout func args kwargs w =
         Some (Raised e, joined rt func args kwargs w t)"
proof -
  have d: "duration (py_call func args kwargs) = Some t"
    using assms(2) by simp
  show ?thesis
    unfolding wrapper_in_time [OF assms(1) d assms(3)]
    by (simp add: target_def assms(2,4,5) store_def)
qed

lemma wrapper_falsy:
  assumes "wf_world w" and "py_call func args kwargs = Throws t e"
    and "completes rt timeout t" and "isinstance_Exception e" and "\<not> truth_value e"
  shows "wrapper rt timeout func args kwargs w =
         Some (Returned PyNone, joined rt func args kwargs w t)"
proof -
  have d: "duration (py_call func args kwargs) = Some t"
    using assms(2) by simp
  show ?thesis
    unfolding wrapper_in_time [OF assms(1) d assms(3)]
    by (simp add: target_def assms(2,4,5) store_def)
qed

lemma wrapper_uncaught:
  assumes "wf_world w" and "py_call func args kwargs = Throws t e"
    and "completes rt timeout t" and "\<not> isinstance_Exception e"
  shows "wrapper rt timeout func args kwargs w =
         Some (Returned PyNone, joined rt func args kwargs w t)"
proof -
  have d: "duration (py_call func args kwargs) = Some t"
    using assms(2) by simp
  show ?thesis
    unfolding wrapper_in_time [OF assms(1) d assms(3)]
    by (simp add: target_def assms(2,4) store_def)
qed

lemma wrapper_in_time_world:
  assumes "duration (py_call func args kwargs) = Some t" and "completes rt timeout t"
    and "wrapper rt timeout func args kwargs w = Some (out, w')"
  shows "w' = joined rt func args kwargs w t"
  using assms(3) dead_joined [OF assms(1), of w rt]
  unfolding wrapper_started join_in_time [OF assms(1,2)]
  by (simp split: if_splits)

lemma timeout_message_named:
  assumes "py_name func = Some name"
  shows "timeout_message rt timeout func args kwargs =
         Inr (name @ '' timed out after '' @ str_timeout rt timeout @ '' seconds; args: '' @
              str_args rt args @ ''; kwargs: '' @ str_kwargs rt kwargs)"
  using assms by (simp add: timeout_message_def)

lemma wrapper_overrun:
  assumes "overruns rt (Some d) (py_call func args kwargs)"
    and "timeout_message rt (Some d) func args kwargs = Inr msg"
  shows "wrapper rt (Some d) func args kwargs w =
         Some (Returned PyNone, logger_warning msg (expired rt func args kwargs w d))"
  unfolding wrapper_started join_overrun [OF assms(1)]
  by (simp add: alive_expired [OF assms(1)] assms(2))

lemma wrapper_overrun_nameless:
  assumes "overruns rt (Some d) (py_call func args kwargs)"
    and "py_name func = None"
  shows "wrapper rt (Some d) func args kwargs w =
         Some (Raised attribute_error, expired rt func args kwargs w d)"
  unfolding wrapper_started join_overrun [OF assms(1)]
  by (simp add: alive_expired [OF assms(1)] assms(2) timeout_message_def)

lemma wrapper_overflow:
  assumes "\<not> accepted rt timeout"
  shows "wrapper rt timeout func args kwargs w =
         Some (Raised overflow_error, started rt func args kwargs w)"
  unfolding wrapper_started join_overflow [OF assms] by simp

lemma wrapper_blocks:
  assumes "py_call func args kwargs = Hangs"
  shows "wrapper rt None func args kwargs w = None"
  unfolding wrapper_started join_blocks [OF assms] by simp

subsection \<open>Well-formed worlds\<close>

lemma wf_world_spawn:
  assumes "wf_world w"
  shows "wf_world (spawn func args kwargs w)"
  using assms unfolding wf_world_def list_all_iff
  by (auto simp: spawn_def target_def split: option.splits behaviour.splits if_splits)

lemma wf_world_elapse:
  assumes "wf_world w"
  shows "wf_world (elapse incl T w)"
  using assms unfolding wf_world_def list_all_iff
  by (auto simp: elapse_def split: option.splits)

lemma wf_world_logger_warning:
  assumes "wf_world w"
  shows "wf_world (logger_warning msg w)"
  using assms unfolding wf_world_def list_all_iff
  by (auto simp: logger_warning_def split: option.splits)

lemma wf_world0: "wf_world world0"
  by (simp add: wf_world_def world0_def)

lemma wf_world_started:
  assumes "wf_world w"
  shows "wf_world (started rt func args kwargs w)"
  unfolding started_def by (rule wf_world_elapse [OF wf_world_spawn [OF assms]])

lemma wf_world_joined:
  assumes "wf_world w"
  shows "wf_world (joined rt func args kwargs w t)"
  using wf_world_started [OF assms] wf_world_elapse
  by (simp add: joined_def)

lemma wf_world_expired:
  assumes "wf_world w"
  shows "wf_world (expired rt func args kwargs w d)"
  unfolding expired_def by (rule wf_world_elapse [OF wf_world_started [OF assms]])

subsection \<open>The outcome as a function of the work\<close>

lemma timing_cases:
  "\<not> accepted rt timeout \<or> overruns rt timeout b \<or>
   (\<exists>t. duration b = Some t \<and> completes rt timeout t) \<or>
   (timeout = None \<and> b = Hangs)"
  by (cases b; cases timeout) (auto simp add: overruns_def completes_def in_time_def)

lemma overruns_not_completes:
  assumes "duration b = Some t" and "completes rt timeout t"
  shows "\<not> overruns rt timeout b"
  using assms by (auto simp add: overruns_def completes_def split: option.splits)

lemma overruns_accepted:
  assumes "overruns rt timeout b"
  shows "accepted rt timeout"
  using assms by (auto simp add: overruns_def split: option.splits)

lemma overruns_Some:
  assumes "overruns rt timeout b"
  obtains d where "timeout = Some d"
  using assms by (cases timeout) (simp_all add: overruns_def)

lemma wrapper_verdict:
  assumes "wf_world w"
  shows "map_option fst (wrapper rt timeout func args kwargs w) =
         verdict rt timeout func args kwargs"
proof -
  let ?b = "py_call func args kwargs"
  consider (refused) "\<not> accepted rt timeout"
    | (late) "overruns rt timeout ?b"
    | (timely) t where "duration ?b = Some t" and "completes rt timeout t"
    | (never) "timeout = None" and "?b = Hangs"
    using timing_cases [of rt timeout ?b] by blast
  then show ?thesis
  proof cases
    case refused
    then show ?thesis
      by (simp add: wrapper_overflow verdict_def)
  next
    case late
    then obtain d where d: "timeout = Some d"
      by (rule overruns_Some)
    have late': "overruns rt (Some d) ?b"
      using late by (simp add: d)
    show ?thesis
    proof (cases "py_name func")
      case None
      then show ?thesis
        using late overruns_accepted [OF late]
        by (simp add: d wrapper_overrun_nameless [OF late'] verdict_def)
    next
      case (Some name)
      then show ?thesis
        using late overruns_accepted [OF late]
        by (simp add: d wrapper_overrun [OF late' timeout_message_named [OF Some]]
            verdict_def)
    qed
  next
    case timely
    note no = overruns_not_completes [OF timely]
    have ok: "accepted rt timeout"
      using timely(2) by (simp add: completes_def)
    show ?thesis
    proof (cases ?b)
      case (Returns t' v)
      with timely have fc: "?b = Returns t v" by simp
      show ?thesis
        using wrapper_returns [OF assms fc timely(2)] no ok
        by (simp add: verdict_def fc)
    next
      case (Throws t' e)
      with timely have fc: "?b = Throws t e" by simp
      show ?thesis
      proof (cases "isinstance_Exception e")
        case True
        show ?thesis
        proof (cases "truth_value e")
          case tv: True
          show ?thesis
            using wrapper_raises [OF assms fc timely(2) True tv] no ok
            by (simp add: verdict_def fc True tv)
        next
          case tv: False
          show ?thesis
            using wrapper_falsy [OF assms fc timely(2) True tv] no ok
            by (simp add: verdict_def fc True tv)
        qed
      next
        case False
        show ?thesis
          using wrapper_uncaught [OF assms fc timely(2) False] no ok
          by (simp add: verdict_def fc False)
      qed
    next
      case Hangs
      with timely show ?thesis by simp
    qed
  next
    case never
    then show ?thesis
      using wrapper_blocks [OF never(2)]
      by (simp add: verdict_def overruns_def accepted_def)
  qed
qed

subsection \<open>The world a call leaves\<close>

lemma wrapper_final_world:
  assumes "wrapper rt timeout func args kwargs w = Some (out, w')"
  shows "\<exists>W. (W = started rt func args kwargs w \<or>
              (\<exists>t. W = joined rt func args kwargs w t) \<or>
              (\<exists>d. W = expired rt func args kwargs w d)) \<and>
             (w' = W \<or> (\<exists>msg. w' = logger_warning msg W))"
proof (cases "thread_join rt (length (threads w)) timeout (started rt func args kwargs w)")
  case None
  then show ?thesis
    using assms by (simp add: wrapper_started)
next
  case (Some res)
  show ?thesis
  proof (cases res)
    case (Inl e)
    then have "w' = started rt func args kwargs w"
      using assms Some by (simp add: wrapper_started)
    then show ?thesis by blast
  next
    case (Inr w4)
    have shape: "(\<exists>t. w4 = joined rt func args kwargs w t) \<or>
        (\<exists>d. w4 = expired rt func args kwargs w d)"
      using Some Inr unfolding join_started
      by (auto split: option.splits if_splits)
    have "w' = w4 \<or> (\<exists>msg. w' = logger_warning msg w4)"
      using assms unfolding wrapper_started Some Inr
      by (auto split: if_splits sum.splits)
    then show ?thesis
      using shape by blast
  qed
qed

lemma wrapper_next_free:
  assumes "wrapper rt timeout func args kwargs w = Some (out, w')"
  shows "next_free w' = Suc (Suc (next_free w))"
  using wrapper_final_world [OF assms] by auto

lemma wrapper_wf_world:
  assumes "wf_world w" and "wrapper rt timeout func args kwargs w = Some (out, w')"
  shows "wf_world w'"
  using wrapper_final_world [OF assms(2)] wf_world_started [OF assms(1)]
    wf_world_joined [OF assms(1)] wf_world_expired [OF assms(1)] wf_world_logger_warning
  by auto

subsection \<open>What existed before the call\<close>








lemma length_threads_idle [simp]:
  "length (threads (idle steps w)) = length (threads w)"
  by (induction steps arbitrary: w) auto






subsection \<open>Timing and the log message\<close>

lemma completes_before:
  assumes "t < d" and "max d 0 \<le> timeout_max rt"
  shows "completes rt (Some d) t"
proof -
  have "0 \<le> lead rt" and "d \<le> max d 0"
    by simp_all
  then have "t < lead rt + max d 0"
    using assms(1) by linarith
  then show ?thesis
    using assms(2) by (simp add: completes_def accepted_def in_time_def)
qed

lemma completes_None: "completes rt None t"
  by (simp add: completes_def accepted_def in_time_def)


lemma message_names_work:
  assumes "timeout_message rt timeout func args kwargs = Inr msg"
    and "py_name func = Some name"
  shows "prefix name msg"
  using assms by (auto simp add: timeout_message_def)



lemma timeout_message_exists:
  assumes "py_name func = Some name"
  shows "\<exists>msg. timeout_message rt timeout func args kwargs = Inr msg"
  using assms by (simp add: timeout_message_def)

subsection \<open>Standard error\<close>



section \<open>Properties of the specification\<close>

subsection \<open>Outcomes and the timeout marker\<close>




subsection \<open>Zero and negative deadlines\<close>




subsection \<open>Failures of the work\<close>

text \<open>
  C3, as stated, fails. The claim says that every failure the work raises before the
  deadline reaches the caller. A work item that raises SystemExit after 50 ms, under a
  deadline of 200 ms, makes the wrapper return None. And under a deadline of 9223372037
  seconds, which is above \<^verbatim>\<open>threading.TIMEOUT_MAX\<close>, a work item that raises
  ValueError after 50 ms makes the wrapper raise OverflowError, not the ValueError.
\<close>

theorem SystemExit_is_not_reraised:
  "map_option fst (wrapper demo_runtime (Some (1 / 5))
      (Function (sleeper ''quit'' (Throws (1 / 20) system_exit))) [] [] world0) =
     Some (Returned PyNone) \<and>
   map_option fst (wrapper demo_runtime (Some 9223372037)
      (Function (sleeper ''bad'' (Throws (1 / 20) value_error))) [] [] world0) =
     Some (Raised overflow_error)"
  by (simp add: wrapper_verdict [OF wf_world0] verdict_def accepted_def overruns_def
      in_time_def lead_def sleeper_def system_exit_def demo_runtime_def)

text \<open>
  C3, amended. For every deadline d that \<^verbatim>\<open>join\<close> accepts and every work item that
  raises, in time t < d, an exception that is an instance of \<^verbatim>\<open>Exception\<close> and whose
  truth value is true, the wrapper raises that same exception object and logs nothing.
\<close>

theorem captured_failure_is_reraised_unchanged:
  assumes "wf_world w" and "py_call func args kwargs = Throws t e" and "t < d"
    and "max d 0 \<le> timeout_max rt"
    and "isinstance_Exception e" and "truth_value e"
  shows "\<exists>w'. wrapper rt (Some d) func args kwargs w = Some (Raised e, w') \<and>
           logs w' = logs w"
  using wrapper_raises [OF assms(1,2) completes_before [OF assms(3,4)] assms(5,6)]
  by simp

text \<open>
  C3, amended, at a concrete input: a ValueError raised after 50 ms, under a deadline of
  200 ms.
\<close>

theorem captured_failure_is_reraised_unchanged_witness:
  "wf_world world0 \<and>
   py_call (Function (sleeper ''bad'' (Throws (1 / 20) value_error))) [] [] =
     Throws (1 / 20) value_error \<and>
   (1 / 20 :: rat) < 1 / 5 \<and> max (1 / 5) 0 \<le> timeout_max demo_runtime \<and>
   isinstance_Exception value_error \<and> truth_value value_error \<and>
   (\<exists>w'. wrapper demo_runtime (Some (1 / 5))
            (Function (sleeper ''bad'' (Throws (1 / 20) value_error))) [] [] world0 =
            Some (Raised value_error, w') \<and>
         logs w' = logs world0)"
proof -
  have call: "py_call (Function (sleeper ''bad'' (Throws (1 / 20) value_error))) [] [] =
      Throws (1 / 20) value_error"
    by (simp add: sleeper_def)
  have t: "(1 / 20 :: rat) < 1 / 5"
    by simp
  have ok: "max (1 / 5) 0 \<le> timeout_max demo_runtime"
    by (simp add: demo_runtime_def)
  have inst: "isinstance_Exception value_error" and truthy: "truth_value value_error"
    by (simp_all add: value_error_def)
  show ?thesis
    using captured_failure_is_reraised_unchanged [OF wf_world0 call t ok inst truthy]
      wf_world0 call ok inst truthy
    by simp
qed

text \<open>
  C8, as stated, fails. The claim says that the wrapper returns None for every work item
  that raises, before the deadline, an exception that is not an instance of
  \<^verbatim>\<open>Exception\<close>. Under a deadline of 9223372037 seconds, which is above
  \<^verbatim>\<open>threading.TIMEOUT_MAX\<close>, a work item that raises SystemExit after 50 ms makes the
  wrapper raise OverflowError.
\<close>

theorem SystemExit_under_huge_deadline_raises_OverflowError:
  "map_option fst (wrapper demo_runtime (Some 9223372037)
      (Function (sleeper ''quit'' (Throws (1 / 20) system_exit))) [] [] world0) =
     Some (Raised overflow_error)"
  by (simp add: wrapper_verdict [OF wf_world0] verdict_def accepted_def demo_runtime_def)

text \<open>
  C8, amended. The worker captures only instances of \<^verbatim>\<open>Exception\<close>. For every deadline
  d that \<^verbatim>\<open>join\<close> accepts and every work item that raises, in time t < d, an exception
  that is not an instance of \<^verbatim>\<open>Exception\<close>, the wrapper returns None: the lists
  \<^verbatim>\<open>exception\<close> and \<^verbatim>\<open>result\<close> still hold None, and nothing is logged.
\<close>

theorem uncaught_BaseException_yields_None:
  assumes "wf_world w" and "py_call func args kwargs = Throws t e" and "t < d"
    and "max d 0 \<le> timeout_max rt"
    and "\<not> isinstance_Exception e"
  shows "\<exists>w'. wrapper rt (Some d) func args kwargs w = Some (Returned PyNone, w') \<and>
           heap w' (Suc (next_free w)) = PyNone \<and> heap w' (next_free w) = PyNone \<and>
           logs w' = logs w"
proof -
  have dur: "duration (py_call func args kwargs) = Some t"
    using assms(2) by simp
  have wb: "write_back (target func args kwargs (next_free w) (Suc (next_free w)) (now w)) = None"
    using assms(2,5) by (simp add: target_def)
  have "heap (joined rt func args kwargs w t) (Suc (next_free w)) = PyNone"
    and "heap (joined rt func args kwargs w t) (next_free w) = PyNone"
    by (simp_all add: heap_joined [OF assms(1) dur] wb store_def)
  then show ?thesis
    by (simp add: wrapper_uncaught [OF assms(1,2) completes_before [OF assms(3,4)] assms(5)])
qed

text \<open>
  C8, amended, at a concrete input: SystemExit raised after 50 ms, under a deadline of
  200 ms.
\<close>

theorem uncaught_BaseException_yields_None_witness:
  "wf_world world0 \<and>
   py_call (Function (sleeper ''quit'' (Throws (1 / 20) system_exit))) [] [] =
     Throws (1 / 20) system_exit \<and>
   (1 / 20 :: rat) < 1 / 5 \<and> max (1 / 5) 0 \<le> timeout_max demo_runtime \<and>
   \<not> isinstance_Exception system_exit \<and>
   (\<exists>w'. wrapper demo_runtime (Some (1 / 5))
            (Function (sleeper ''quit'' (Throws (1 / 20) system_exit))) [] [] world0 =
            Some (Returned PyNone, w') \<and>
         heap w' 1 = PyNone \<and> heap w' 0 = PyNone \<and> logs w' = [])"
proof -
  have call: "py_call (Function (sleeper ''quit'' (Throws (1 / 20) system_exit))) [] [] =
      Throws (1 / 20) system_exit"
    by (simp add: sleeper_def)
  have t: "(1 / 20 :: rat) < 1 / 5"
    by simp
  have ok: "max (1 / 5) 0 \<le> timeout_max demo_runtime"
    by (simp add: demo_runtime_def)
  have base: "\<not> isinstance_Exception system_exit"
    by (simp add: system_exit_def)
  show ?thesis
    using uncaught_BaseException_yields_None [OF wf_world0 call t ok base]
      wf_world0 call ok base
    by (auto simp: world0_def)
qed

subsection \<open>Completion in time\<close>

text \<open>
  C4, as stated, fails. The claim is made for every positive deadline. Under the positive
  deadline of 9223372037 seconds, which is above \<^verbatim>\<open>threading.TIMEOUT_MAX\<close>, a work
  item that returns 42 after 50 ms makes the wrapper raise OverflowError.
\<close>

theorem huge_deadline_raises_OverflowError:
  "map_option fst (wrapper demo_runtime (Some 9223372037)
      (Function (sleeper ''work'' (Returns (1 / 20) (PyInt 42)))) [] [] world0) =
     Some (Raised overflow_error)"
  by (simp add: wrapper_verdict [OF wf_world0] verdict_def accepted_def demo_runtime_def)

text \<open>
  C4, amended. For every positive deadline d that is at most the largest timeout
  \<^verbatim>\<open>join\<close> accepts, and every work item that completes without failure in time t < d,
  the call returns, and what it returns is the value the work produced, also when that
  value is None. Nothing is logged.
\<close>

theorem completed_work_value_is_returned:
  assumes "wf_world w" and "0 < d" and "d \<le> timeout_max rt" and "t < d"
    and "py_call func args kwargs = Returns t v"
  shows "\<exists>w'. wrapper rt (Some d) func args kwargs w = Some (Returned v, w') \<and>
           logs w' = logs w"
proof -
  have "max d 0 \<le> timeout_max rt"
    using assms(2,3) by simp
  then show ?thesis
    using wrapper_returns [OF assms(1,5) completes_before [OF assms(4)]]
    by simp
qed

text \<open>
  C4, amended, at concrete inputs, under a deadline of 200 ms: a work item that returns 42
  after 50 ms, and one that returns None after 50 ms.
\<close>

theorem completed_work_value_is_returned_witness:
  "wf_world world0 \<and> (0 :: rat) < 1 / 5 \<and> 1 / 5 \<le> timeout_max demo_runtime \<and>
   (1 / 20 :: rat) < 1 / 5 \<and>
   py_call (Function (sleeper ''work'' (Returns (1 / 20) (PyInt 42)))) [] [] =
     Returns (1 / 20) (PyInt 42) \<and>
   py_call (Function (sleeper ''nothing'' (Returns (1 / 20) PyNone))) [] [] =
     Returns (1 / 20) PyNone \<and>
   (\<exists>w'. wrapper demo_runtime (Some (1 / 5))
            (Function (sleeper ''work'' (Returns (1 / 20) (PyInt 42)))) [] [] world0 =
            Some (Returned (PyInt 42), w') \<and>
         logs w' = logs world0) \<and>
   (\<exists>w'. wrapper demo_runtime (Some (1 / 5))
            (Function (sleeper ''nothing'' (Returns (1 / 20) PyNone))) [] [] world0 =
            Some (Returned PyNone, w') \<and>
         logs w' = logs world0)"
proof -
  have call: "py_call (Function (sleeper ''work'' (Returns (1 / 20) (PyInt 42)))) [] [] =
      Returns (1 / 20) (PyInt 42)"
    and empty_call: "py_call (Function (sleeper ''nothing'' (Returns (1 / 20) PyNone))) [] [] =
      Returns (1 / 20) PyNone"
    by (simp_all add: sleeper_def)
  have d: "(0 :: rat) < 1 / 5" and t: "(1 / 20 :: rat) < 1 / 5"
    by simp_all
  have ok: "1 / 5 \<le> timeout_max demo_runtime"
    by (simp add: demo_runtime_def)
  show ?thesis
    using completed_work_value_is_returned [OF wf_world0 d ok t call]
      completed_work_value_is_returned [OF wf_world0 d ok t empty_call]
      wf_world0 call empty_call ok
    by simp
qed

subsection \<open>The log and other effects\<close>




subsection \<open>The abandoned worker\<close>




subsection \<open>Independent calls\<close>

text \<open>
  C7. Two sequential calls with the same work, arguments and deadline: whatever time
  passes between them, and whether or not the worker of the first call is still running,
  the second call returns, with the outcome of the first. Each call allocates two fresh
  list slots.
\<close>

theorem sequential_calls_are_independent:
  assumes "wf_world w"
    and "wrapper rt timeout func args kwargs w = Some (o1, w1)"
  shows "\<exists>w2. wrapper rt timeout func args kwargs (elapse incl T w1) = Some (o1, w2) \<and>
           next_free w1 = next_free w + 2 \<and> next_free w2 = next_free w1 + 2"
proof -
  let ?w1 = "elapse incl T w1"
  have first: "verdict rt timeout func args kwargs = Some o1"
    using wrapper_verdict [OF assms(1), of rt timeout func args kwargs] assms(2) by simp
  have "wf_world ?w1"
    by (rule wf_world_elapse [OF wrapper_wf_world [OF assms]])
  then have "map_option fst (wrapper rt timeout func args kwargs ?w1) = Some o1"
    using first by (simp add: wrapper_verdict)
  then obtain w2 where second: "wrapper rt timeout func args kwargs ?w1 = Some (o1, w2)"
    by auto
  show ?thesis
    using second wrapper_next_free [OF assms(2)] wrapper_next_free [OF second]
    by simp
qed

text \<open>
  C7 at a concrete input: two calls that time out, the first worker ending in between.
\<close>

theorem sequential_calls_are_independent_witness:
  "wf_world world0 \<and>
   (\<exists>w1 w2.
      wrapper demo_runtime (Some (1 / 5))
        (Function (sleeper ''slow'' (Returns (1 / 2) (PyInt 42)))) [] [] world0 =
        Some (Returned PyNone, w1) \<and>
      wrapper demo_runtime (Some (1 / 5))
        (Function (sleeper ''slow'' (Returns (1 / 2) (PyInt 42)))) [] [] (elapse True 1 w1) =
        Some (Returned PyNone, w2) \<and>
      next_free w1 = 2 \<and> next_free w2 = 4)"
proof -
  let ?slow = "Function (sleeper ''slow'' (Returns (1 / 2) (PyInt 42)))"
  have late: "overruns demo_runtime (Some (1 / 5)) (py_call ?slow [] [])"
    by (simp add: overruns_def accepted_def in_time_def lead_def sleeper_def demo_runtime_def)
  have name: "py_name ?slow = Some ''slow''"
    by (simp add: sleeper_def)
  obtain w1 where run:
    "wrapper demo_runtime (Some (1 / 5)) ?slow [] [] world0 = Some (Returned PyNone, w1)"
    using wrapper_overrun [OF late timeout_message_named [OF name]] by blast
  have "\<exists>w2. wrapper demo_runtime (Some (1 / 5)) ?slow [] [] (elapse True 1 w1) =
        Some (Returned PyNone, w2) \<and>
      next_free w1 = 2 \<and> next_free w2 = 4"
    using sequential_calls_are_independent [OF wf_world0 run, of True 1]
    by (auto simp: world0_def)
  then show ?thesis
    using run wf_world0 by blast
qed

subsection \<open>Metadata of the decorated function\<close>

text \<open>
  C9. The decoration of a function has the name, the docstring, the qualified name and
  the module of the function it wraps, and the message logged on the timeout path starts
  with the name of the wrapped function.
\<close>

theorem decorated_function_keeps_name_and_doc:
  "fn_name (timeout_decorator rt timeout (Function func)) = fn_name func \<and>
   fn_doc (timeout_decorator rt timeout (Function func)) = fn_doc func \<and>
   fn_qualname (timeout_decorator rt timeout (Function func)) = fn_qualname func \<and>
   fn_module (timeout_decorator rt timeout (Function func)) = fn_module func \<and>
   (overruns rt timeout (fn_call func args kwargs) \<longrightarrow>
      (\<exists>w'. fn_call (timeout_decorator rt timeout (Function func)) args kwargs w =
              Some (Returned PyNone, w') \<and>
            prefix (fn_name func) (message (last (logs w')))))"
proof -
  have "\<exists>w'. wrapper rt timeout (Function func) args kwargs w = Some (Returned PyNone, w') \<and>
          prefix (fn_name func) (message (last (logs w')))"
    if late: "overruns rt timeout (fn_call func args kwargs)"
  proof -
    obtain d where d: "timeout = Some d"
      using late by (rule overruns_Some)
    have late': "overruns rt (Some d) (py_call (Function func) args kwargs)"
      using late by (simp add: d)
    have name: "py_name (Function func) = Some (fn_name func)"
      by simp
    obtain msg where msg: "timeout_message rt (Some d) (Function func) args kwargs = Inr msg"
      using timeout_message_exists [OF name] by blast
    show ?thesis
      using message_names_work [OF msg name]
      by (simp add: d wrapper_overrun [OF late' msg])
  qed
  then show ?thesis
    by (simp add: timeout_decorator_def decorator_def)
qed

text \<open>
  C9 at a concrete input.
\<close>

theorem decorated_function_keeps_name_and_doc_witness:
  "fn_name (timeout_decorator demo_runtime (Some (1 / 5))
      (Function (sleeper ''slow'' (Returns (1 / 2) (PyInt 42))))) = ''slow'' \<and>
   fn_doc (timeout_decorator demo_runtime (Some (1 / 5))
      (Function (sleeper ''slow'' (Returns (1 / 2) (PyInt 42))))) = Some ''sleeps'' \<and>
   overruns demo_runtime (Some (1 / 5))
     (fn_call (sleeper ''slow'' (Returns (1 / 2) (PyInt 42))) [] []) \<and>
   (\<exists>w'. fn_call (timeout_decorator demo_runtime (Some (1 / 5))
              (Function (sleeper ''slow'' (Returns (1 / 2) (PyInt 42))))) [] [] world0 =
            Some (Returned PyNone, w') \<and>
         prefix ''slow'' (message (last (logs w'))))"
proof -
  have late: "overruns demo_runtime (Some (1 / 5))
      (fn_call (sleeper ''slow'' (Returns (1 / 2) (PyInt 42))) [] [])"
    by (simp add: overruns_def accepted_def in_time_def lead_def sleeper_def demo_runtime_def)
  have name: "fn_name (sleeper ''slow'' (Returns (1 / 2) (PyInt 42))) = ''slow''"
    and doc: "fn_doc (sleeper ''slow'' (Returns (1 / 2) (PyInt 42))) = Some ''sleeps''"
    by (simp_all add: sleeper_def)
  show ?thesis
    using decorated_function_keeps_name_and_doc
      [of demo_runtime "Some (1 / 5)" "sleeper ''slow'' (Returns (1 / 2) (PyInt 42))" "[]" "[]"
        world0]
      late
    by (simp add: name doc)
qed

subsection \<open>No deadline\<close>

text \<open>
  C10, as stated, fails. The claim says that without a deadline the call returns the
  value of the work or raises its failure again. A work item that raises SystemExit makes
  the wrapper return None.
\<close>

theorem SystemExit_without_deadline_is_not_reraised:
  "map_option fst (wrapper demo_runtime None
      (Function (sleeper ''quit'' (Throws (1 / 20) system_exit))) [] [] world0) =
     Some (Returned PyNone)"
  by (simp add: wrapper_verdict [OF wf_world0] verdict_def overruns_def accepted_def
      sleeper_def system_exit_def)

text \<open>
  C10, amended. Without a deadline the call waits for the work without bound: it never
  returns when the work never terminates, and otherwise returns once \<^verbatim>\<open>start\<close> has
  returned and the work has terminated, never through the timeout path and without
  logging. It returns the value of the work, raises again a failure that is an instance
  of \<^verbatim>\<open>Exception\<close> with a true truth value, and returns None for a failure that is not
  an instance of \<^verbatim>\<open>Exception\<close>.
\<close>

theorem without_deadline_call_waits_for_work:
  assumes "wf_world w"
  shows "(py_call func args kwargs = Hangs \<longrightarrow> wrapper rt None func args kwargs w = None) \<and>
         (\<forall>t v. py_call func args kwargs = Returns t v \<longrightarrow>
            (\<exists>w'. wrapper rt None func args kwargs w = Some (Returned v, w'))) \<and>
         (\<forall>t e. py_call func args kwargs = Throws t e \<longrightarrow>
            isinstance_Exception e \<longrightarrow> truth_value e \<longrightarrow>
            (\<exists>w'. wrapper rt None func args kwargs w = Some (Raised e, w'))) \<and>
         (\<forall>t e. py_call func args kwargs = Throws t e \<longrightarrow> \<not> isinstance_Exception e \<longrightarrow>
            (\<exists>w'. wrapper rt None func args kwargs w = Some (Returned PyNone, w'))) \<and>
         (\<forall>out w'. wrapper rt None func args kwargs w = Some (out, w') \<longrightarrow>
            \<not> is_alive (length (threads w)) w' \<and> logs w' = logs w \<and>
            (\<exists>t. duration (py_call func args kwargs) = Some t \<and>
                 now w' = max (now w + lead rt) (now w + t)))"
proof -
  let ?b = "py_call func args kwargs"
  have always: "completes rt None t" for t
    by (rule completes_None)
  have returned: "\<not> is_alive (length (threads w)) w' \<and> logs w' = logs w \<and>
      (\<exists>t. duration ?b = Some t \<and> now w' = max (now w + lead rt) (now w + t))"
    if run: "wrapper rt None func args kwargs w = Some (out, w')" for out w'
  proof -
    have "?b \<noteq> Hangs"
      using run wrapper_blocks [of func args kwargs rt w] by auto
    then obtain t where t: "duration ?b = Some t"
      by (cases ?b) simp_all
    have "w' = joined rt func args kwargs w t"
      by (rule wrapper_in_time_world [OF t always run])
    then show ?thesis
      using dead_joined [OF t, of w rt] t by (simp add: now_joined)
  qed
  show ?thesis
    using wrapper_blocks [of func args kwargs rt w]
      wrapper_returns [OF assms _ always, of func args kwargs]
      wrapper_raises [OF assms _ always, of func args kwargs]
      wrapper_uncaught [OF assms _ always, of func args kwargs]
      returned
    by blast
qed

text \<open>
  C10, amended, at a concrete input: without a deadline the slow work's 42 is returned.
\<close>

theorem without_deadline_call_waits_for_work_witness:
  "wf_world world0 \<and>
   py_call (Function (sleeper ''slow'' (Returns (1 / 2) (PyInt 42)))) [] [] =
     Returns (1 / 2) (PyInt 42) \<and>
   (\<exists>w'. wrapper demo_runtime None (Function (sleeper ''slow'' (Returns (1 / 2) (PyInt 42))))
            [] [] world0 = Some (Returned (PyInt 42), w') \<and>
         \<not> is_alive 0 w' \<and> logs w' = [] \<and> now w' = 1 / 2)"
proof -
  let ?slow = "Function (sleeper ''slow'' (Returns (1 / 2) (PyInt 42)))"
  have call: "py_call ?slow [] [] = Returns (1 / 2) (PyInt 42)"
    by (simp add: sleeper_def)
  note facts = without_deadline_call_waits_for_work
    [OF wf_world0, where func = ?slow and args = "[]" and kwargs = "[]" and rt = demo_runtime]
  obtain w' where run:
    "wrapper demo_runtime None ?slow [] [] world0 = Some (Returned (PyInt 42), w')"
    using facts call by blast
  have "\<not> is_alive 0 w' \<and> logs w' = [] \<and> now w' = 1 / 2"
    using facts [THEN conjunct2, THEN conjunct2, THEN conjunct2, THEN conjunct2, rule_format,
        OF run] call
    by (auto simp: world0_def lead_def demo_runtime_def)
  then show ?thesis
    using wf_world0 call run by blast
qed

end
